theory Spec2Isabelle
  imports Complex_Main
begin

section \<open>Numbers and vectors\<close>

text \<open>
  The two programs (the bounded 2D simulation of \<^verbatim>\<open>2d.js\<close> and the unbounded 3D
  simulation) compute with JavaScript numbers, that is IEEE 754 binary64. They are
  modelled twice. In the first model, which comes first in this file, numbers are the
  real numbers and every arithmetic step is the exact one; it serves for the properties
  that do not depend on rounding. The second model (the definitions whose names end in
  \<open>_fl\<close>) takes the rounding function \<open>fl\<close> as an argument and applies it after every
  arithmetic operation of the source; with \<open>fl = binary64\<close> it computes what the code
  computes as long as no result leaves the finite range of the doubles, and with
  \<open>fl = (\<lambda>x. x)\<close> it is the first model. Overflow to Infinity, NaN and the sign of
  zero are outside both models. The one place where the 2D program can divide by zero
  (the rescaling by \<^verbatim>\<open>maxRadius\<close>) is a branch of the model of its own.

  \<^verbatim>\<open>THREE.Vector2\<close> and \<^verbatim>\<open>THREE.Vector3\<close> are mutable objects of the three.js
  library. Every vector held by a body is created fresh for that body (by
  \<^verbatim>\<open>randDisc\<close>, \<^verbatim>\<open>randSphere\<close> or the constructor) and every operand of an in-place
  operation is a \<^verbatim>\<open>clone()\<close> or a vector no body holds, so no two fields alias and
  vectors are plain values here. The in-place methods \<^verbatim>\<open>add\<close>, \<^verbatim>\<open>sub\<close>,
  \<^verbatim>\<open>multiplyScalar\<close>, \<^verbatim>\<open>divideScalar\<close> return the new value of the receiver.
\<close>

datatype Vector2 = Vector2 (xc: real) (yc: real)

definition add2 :: "Vector2 \<Rightarrow> Vector2 \<Rightarrow> Vector2" where
  "add2 v w = Vector2 (xc v + xc w) (yc v + yc w)"

definition sub2 :: "Vector2 \<Rightarrow> Vector2 \<Rightarrow> Vector2" where
  "sub2 v w = Vector2 (xc v - xc w) (yc v - yc w)"

definition multiplyScalar2 :: "Vector2 \<Rightarrow> real \<Rightarrow> Vector2" where
  "multiplyScalar2 v s = Vector2 (xc v * s) (yc v * s)"

text \<open>three.js: \<^verbatim>\<open>divideScalar(s) { return this.multiplyScalar(1 / s); }\<close>\<close>

definition divideScalar2 :: "Vector2 \<Rightarrow> real \<Rightarrow> Vector2" where
  "divideScalar2 v s = multiplyScalar2 v (1 / s)"

definition length2 :: "Vector2 \<Rightarrow> real" where
  "length2 v = sqrt (xc v * xc v + yc v * yc v)"

datatype Vector3 = Vector3 (xc3: real) (yc3: real) (zc3: real)

definition add3 :: "Vector3 \<Rightarrow> Vector3 \<Rightarrow> Vector3" where
  "add3 v w = Vector3 (xc3 v + xc3 w) (yc3 v + yc3 w) (zc3 v + zc3 w)"

definition sub3 :: "Vector3 \<Rightarrow> Vector3 \<Rightarrow> Vector3" where
  "sub3 v w = Vector3 (xc3 v - xc3 w) (yc3 v - yc3 w) (zc3 v - zc3 w)"

definition multiplyScalar3 :: "Vector3 \<Rightarrow> real \<Rightarrow> Vector3" where
  "multiplyScalar3 v s = Vector3 (xc3 v * s) (yc3 v * s) (zc3 v * s)"

definition divideScalar3 :: "Vector3 \<Rightarrow> real \<Rightarrow> Vector3" where
  "divideScalar3 v s = multiplyScalar3 v (1 / s)"

definition lengthSq3 :: "Vector3 \<Rightarrow> real" where
  "lengthSq3 v = xc3 v * xc3 v + yc3 v * yc3 v + zc3 v * zc3 v"

section \<open>Body\<close>

text \<open>
  \<^verbatim>\<open>class Body\<close> has the same four fields in both programs; the vector type is the
  parameter. The constructor stores its arguments and a zero acceleration.
\<close>

record 'v Body =
  pos :: 'v
  vel :: 'v
  acc :: 'v
  mass :: real

definition newBody :: "Vector2 \<Rightarrow> Vector2 \<Rightarrow> real \<Rightarrow> Vector2 Body" where
  "newBody p v m = \<lparr>pos = p, vel = v, acc = Vector2 0 0, mass = m\<rparr>"

definition newBody3 :: "Vector3 \<Rightarrow> Vector3 \<Rightarrow> real \<Rightarrow> Vector3 Body" where
  "newBody3 p v m = \<lparr>pos = p, vel = v, acc = Vector3 0 0 0, mass = m\<rparr>"

text \<open>
  \<^verbatim>\<open>update(dt)\<close>: three statements, each reading the fields as the statement before
  left them.
\<close>

definition update :: "real \<Rightarrow> Vector2 Body \<Rightarrow> Vector2 Body" where
  "update dt b =
    (let b1 = b\<lparr>pos := add2 (pos b) (multiplyScalar2 (vel b) dt)\<rparr>;
         b2 = b1\<lparr>vel := add2 (vel b1) (multiplyScalar2 (acc b1) dt)\<rparr>
     in b2\<lparr>acc := Vector2 0 0\<rparr>)"

definition update3 :: "real \<Rightarrow> Vector3 Body \<Rightarrow> Vector3 Body" where
  "update3 dt b =
    (let b1 = b\<lparr>pos := add3 (pos b) (multiplyScalar3 (vel b) dt)\<rparr>;
         b2 = b1\<lparr>vel := add3 (vel b1) (multiplyScalar3 (acc b1) dt)\<rparr>
     in b2\<lparr>acc := Vector3 0 0 0\<rparr>)"

section \<open>The force-accumulation pass\<close>

text \<open>\<^verbatim>\<open>const min = 0.0001\<close> in both programs.\<close>

definition min_c :: real where
  "min_c = 0.0001"

text \<open>
  The body of the inner loop, up to \<^verbatim>\<open>tmp\<close>: \<^verbatim>\<open>mag\<close> after the floor, the divisor
  \<^verbatim>\<open>Math.max(magSq, min) * mag\<close>, and \<^verbatim>\<open>tmp\<close> itself.
\<close>

definition mag_of :: "real \<Rightarrow> real" where
  "mag_of magSq = (let mag = sqrt magSq in if mag < 1 then 1 else mag)"

definition divisor :: "real \<Rightarrow> real" where
  "divisor magSq = max magSq min_c * mag_of magSq"

definition magSq2 :: "Vector2 \<Rightarrow> real" where
  "magSq2 r = xc r * xc r + yc r * yc r"

definition tmp2 :: "Vector2 \<Rightarrow> Vector2 \<Rightarrow> Vector2" where
  "tmp2 p1 p2 = (let r = sub2 p2 p1 in divideScalar2 r (divisor (magSq2 r)))"

definition tmp3 :: "Vector3 \<Rightarrow> Vector3 \<Rightarrow> Vector3" where
  "tmp3 p1 p2 = (let r = sub3 p2 p1 in divideScalar3 r (divisor (lengthSq3 r)))"

text \<open>One iteration of the inner loop, for the pair \<open>(i, j)\<close>.\<close>

definition pairForce :: "nat \<Rightarrow> nat \<Rightarrow> Vector2 Body list \<Rightarrow> Vector2 Body list" where
  "pairForce i j bodies =
    (let p1 = pos (bodies ! i); m1 = mass (bodies ! i);
         p2 = pos (bodies ! j); m2 = mass (bodies ! j);
         tmp = tmp2 p1 p2;
         bodies1 = bodies[i := (bodies ! i)\<lparr>acc := add2 (acc (bodies ! i)) (multiplyScalar2 tmp m2)\<rparr>]
     in bodies1[j := (bodies1 ! j)\<lparr>acc := sub2 (acc (bodies1 ! j)) (multiplyScalar2 tmp m1)\<rparr>])"

definition pairForce3 :: "nat \<Rightarrow> nat \<Rightarrow> Vector3 Body list \<Rightarrow> Vector3 Body list" where
  "pairForce3 i j bodies =
    (let p1 = pos (bodies ! i); m1 = mass (bodies ! i);
         p2 = pos (bodies ! j); m2 = mass (bodies ! j);
         tmp = tmp3 p1 p2;
         bodies1 = bodies[i := (bodies ! i)\<lparr>acc := add3 (acc (bodies ! i)) (multiplyScalar3 tmp m2)\<rparr>]
     in bodies1[j := (bodies1 ! j)\<lparr>acc := sub3 (acc (bodies1 ! j)) (multiplyScalar3 tmp m1)\<rparr>])"

lemma length_pairForce [simp]: "length (pairForce i j bodies) = length bodies"
  by (simp add: pairForce_def Let_def)

lemma length_pairForce3 [simp]: "length (pairForce3 i j bodies) = length bodies"
  by (simp add: pairForce3_def Let_def)

text \<open>
  \<^verbatim>\<open>for (let j = i + 1; j < bodies.length; j++)\<close> and
  \<^verbatim>\<open>for (let i = 0; i < bodies.length; i++)\<close>: the loops as recursion on the
  counter, the bound read at every test.
\<close>

function jLoop :: "nat \<Rightarrow> nat \<Rightarrow> Vector2 Body list \<Rightarrow> Vector2 Body list" where
  "jLoop i j bodies =
    (if j < length bodies then jLoop i (j + 1) (pairForce i j bodies) else bodies)"
  by pat_completeness auto
termination
  by (relation "measure (\<lambda>(i, j, bodies). length bodies - j)") auto

declare jLoop.simps [simp del]

lemma length_jLoop [simp]: "length (jLoop i j bodies) = length bodies"
  by (induction i j bodies rule: jLoop.induct) (subst jLoop.simps, simp)

function iLoop :: "nat \<Rightarrow> Vector2 Body list \<Rightarrow> Vector2 Body list" where
  "iLoop i bodies =
    (if i < length bodies then iLoop (i + 1) (jLoop i (i + 1) bodies) else bodies)"
  by pat_completeness auto
termination
  by (relation "measure (\<lambda>(i, bodies). length bodies - i)") auto

declare iLoop.simps [simp del]

lemma length_iLoop [simp]: "length (iLoop i bodies) = length bodies"
  by (induction i bodies rule: iLoop.induct) (subst iLoop.simps, simp)

definition accumulate :: "Vector2 Body list \<Rightarrow> Vector2 Body list" where
  "accumulate bodies = iLoop 0 bodies"

function jLoop3 :: "nat \<Rightarrow> nat \<Rightarrow> Vector3 Body list \<Rightarrow> Vector3 Body list" where
  "jLoop3 i j bodies =
    (if j < length bodies then jLoop3 i (j + 1) (pairForce3 i j bodies) else bodies)"
  by pat_completeness auto
termination
  by (relation "measure (\<lambda>(i, j, bodies). length bodies - j)") auto

declare jLoop3.simps [simp del]

lemma length_jLoop3 [simp]: "length (jLoop3 i j bodies) = length bodies"
  by (induction i j bodies rule: jLoop3.induct) (subst jLoop3.simps, simp)

function iLoop3 :: "nat \<Rightarrow> Vector3 Body list \<Rightarrow> Vector3 Body list" where
  "iLoop3 i bodies =
    (if i < length bodies then iLoop3 (i + 1) (jLoop3 i (i + 1) bodies) else bodies)"
  by pat_completeness auto
termination
  by (relation "measure (\<lambda>(i, bodies). length bodies - i)") auto

declare iLoop3.simps [simp del]

lemma length_iLoop3 [simp]: "length (iLoop3 i bodies) = length bodies"
  by (induction i bodies rule: iLoop3.induct) (subst iLoop3.simps, simp)

definition accumulate3 :: "Vector3 Body list \<Rightarrow> Vector3 Body list" where
  "accumulate3 bodies = iLoop3 0 bodies"

section \<open>One frame\<close>

text \<open>
  The boundary check of the 2D program, run on a body right after its \<^verbatim>\<open>update\<close>:
  \<^verbatim>\<open>vel.x *= -1\<close> when \<^verbatim>\<open>pos.x <= -3 || pos.x >= 3\<close>, then the same for \<open>y\<close>.
\<close>

definition boundary :: "Vector2 Body \<Rightarrow> Vector2 Body" where
  "boundary b =
    (let b1 = (if xc (pos b) \<le> - 3 \<or> xc (pos b) \<ge> 3
               then b\<lparr>vel := Vector2 (xc (vel b) * (- 1)) (yc (vel b))\<rparr> else b)
     in (if yc (pos b1) \<le> - 3 \<or> yc (pos b1) \<ge> 3
         then b1\<lparr>vel := Vector2 (xc (vel b1)) (yc (vel b1) * (- 1))\<rparr> else b1))"

text \<open>
  \<^verbatim>\<open>animate()\<close> without its rendering: the accumulation pass, then
  \<^verbatim>\<open>bodies.forEach\<close> over the bodies in order. The globals \<^verbatim>\<open>bodies\<close> and
  \<^verbatim>\<open>dt\<close> are its arguments, the new \<^verbatim>\<open>bodies\<close> its result.
\<close>

definition animate :: "real \<Rightarrow> Vector2 Body list \<Rightarrow> Vector2 Body list" where
  "animate dt bodies = map (\<lambda>body. boundary (update dt body)) (accumulate bodies)"

definition animate3 :: "real \<Rightarrow> Vector3 Body list \<Rightarrow> Vector3 Body list" where
  "animate3 dt bodies = map (\<lambda>body. update3 dt body) (accumulate3 bodies)"

section \<open>Initial state\<close>

text \<open>
  \<^verbatim>\<open>const n = 100\<close> in both programs. \<^verbatim>\<open>Math.random()\<close> is the argument
  \<open>random\<close>: \<open>random k\<close> is the value of the \<open>k\<close>-th call, counted from 0, a number
  in \<open>[0, 1)\<close>. \<^verbatim>\<open>randDisc\<close> calls it twice (the angle first), \<^verbatim>\<open>randSphere\<close>
  three times, and the loop that creates the bodies calls each of them twice per body,
  position first.
\<close>

definition n :: nat where
  "n = 100"

definition randDisc :: "real \<Rightarrow> real \<Rightarrow> Vector2" where
  "randDisc u1 u2 =
    (let theta = u1 * pi * 2; r = u2 in Vector2 (cos theta * r) (sin theta * r))"

definition createBodies :: "(nat \<Rightarrow> real) \<Rightarrow> Vector2 Body list" where
  "createBodies random =
    map (\<lambda>i. let p = randDisc (random (4 * i)) (random (4 * i + 1));
                 v = multiplyScalar2 (randDisc (random (4 * i + 2)) (random (4 * i + 3))) 0.002;
                 m = 2
             in newBody p v m) [0..<n]"

definition randSphere :: "real \<Rightarrow> real \<Rightarrow> real \<Rightarrow> Vector3" where
  "randSphere u1 u2 u3 =
    (let theta = u1 * pi * 2; phi = u2 * pi; r = u3
     in Vector3 (sin phi * cos theta * r) (sin phi * sin theta * r) (cos phi * r))"

definition createBodies3 :: "(nat \<Rightarrow> real) \<Rightarrow> Vector3 Body list" where
  "createBodies3 random =
    map (\<lambda>i. let p = randSphere (random (6 * i)) (random (6 * i + 1)) (random (6 * i + 2));
                 v = multiplyScalar3
                       (randSphere (random (6 * i + 3)) (random (6 * i + 4)) (random (6 * i + 5))) 0.02;
                 m = 1
             in newBody3 p v m) [0..<n]"

text \<open>
  The centring of the 2D program. \<^verbatim>\<open>velSum\<close> and \<^verbatim>\<open>posSum\<close> are a
  \<^verbatim>\<open>reduce\<close> from the left over the bodies, divided by \<open>n\<close>; both are computed
  before the first body is changed.
\<close>

definition velSum :: "Vector2 Body list \<Rightarrow> Vector2" where
  "velSum bodies =
    divideScalar2
      (fold (\<lambda>body sum. add2 sum (multiplyScalar2 (vel body) (mass body))) bodies (Vector2 0 0))
      (real n)"

definition posSum :: "Vector2 Body list \<Rightarrow> Vector2" where
  "posSum bodies =
    divideScalar2
      (fold (\<lambda>body sum. add2 sum (multiplyScalar2 (pos body) (mass body))) bodies (Vector2 0 0))
      (real n)"

definition centre :: "Vector2 Body list \<Rightarrow> Vector2 Body list" where
  "centre bodies =
    (let vS = velSum bodies; pS = posSum bodies
     in map (\<lambda>body. body\<lparr>vel := sub2 (vel body) vS, pos := sub2 (pos body) pS\<rparr>) bodies)"

text \<open>
  \<^verbatim>\<open>Math.max(...xs)\<close>; \<open>None\<close> is the \<open>-Infinity\<close> of no arguments. The rescaling
  divides every position by \<^verbatim>\<open>maxRadius\<close>. When \<^verbatim>\<open>maxRadius\<close> is 0 every position
  is the origin and JavaScript computes \<open>0 * (1 / 0)\<close>, which is NaN: the result
  \<open>None\<close> of \<open>rescale\<close>.
\<close>

fun Math_max :: "real list \<Rightarrow> real option" where
  "Math_max [] = None"
| "Math_max (x # xs) = Some (fold max xs x)"

definition maxRadius :: "Vector2 Body list \<Rightarrow> real option" where
  "maxRadius bodies = Math_max (map (\<lambda>body. length2 (pos body)) bodies)"

definition rescale :: "Vector2 Body list \<Rightarrow> Vector2 Body list option" where
  "rescale bodies =
    (case maxRadius bodies of
       None \<Rightarrow> Some bodies
     | Some r \<Rightarrow> if r = 0 then None
                else Some (map (\<lambda>body. body\<lparr>pos := divideScalar2 (pos body) r\<rparr>) bodies))"

definition init :: "(nat \<Rightarrow> real) \<Rightarrow> Vector2 Body list option" where
  "init random = rescale (centre (createBodies random))"

section \<open>Double-precision arithmetic\<close>

text \<open>
  Rounding to the nearest double, ties to even. For \<open>x \<noteq> 0\<close> the exponent \<open>e\<close> is the
  largest integer with \<open>2\<^sup>e \<le> \<bar>x\<bar>\<close>, but at least \<open>-1022\<close> (below that the doubles
  are the subnormal ones, with the spacing of exponent \<open>-1022\<close>); the doubles near \<open>x\<close>
  are the multiples of \<open>2\<^sup>e\<^sup>-\<^sup>5\<^sup>2\<close>, and \<open>binary64 x\<close> is the nearest multiple, the even
  one of two nearest. The exponent is found by halving a number \<open>\<ge> 1\<close> and by doubling
  a number \<open>< 1\<close>, the latter at most 1022 times.
\<close>

definition round_even :: "real \<Rightarrow> int" where
  "round_even m =
    (let f = \<lfloor>m\<rfloor>; d = m - of_int f
     in if d < 1 / 2 then f else if 1 / 2 < d then f + 1 else if even f then f else f + 1)"

function floor_log2_ge1 :: "real \<Rightarrow> int" where
  "floor_log2_ge1 x = (if x < 2 then 0 else floor_log2_ge1 (x / 2) + 1)"
  by pat_completeness auto
termination
proof (relation "measure (\<lambda>x. nat \<lfloor>x\<rfloor>)")
  show "wf (measure (\<lambda>x::real. nat \<lfloor>x\<rfloor>))" by simp
next
  fix x :: real
  assume "\<not> x < 2"
  then have "x / 2 \<le> x - 1" by simp
  then have "\<lfloor>x / 2\<rfloor> \<le> \<lfloor>x - 1\<rfloor>" by (rule floor_mono)
  moreover have "2 \<le> \<lfloor>x\<rfloor>" using \<open>\<not> x < 2\<close> by (simp add: le_floor_iff)
  ultimately show "(x / 2, x) \<in> measure (\<lambda>x. nat \<lfloor>x\<rfloor>)" by simp
qed

declare floor_log2_ge1.simps [simp del]

fun floor_log2_lt1 :: "nat \<Rightarrow> real \<Rightarrow> int" where
  "floor_log2_lt1 0 x = 0"
| "floor_log2_lt1 (Suc k) x = (if 1 \<le> x then 0 else floor_log2_lt1 k (2 * x) - 1)"

definition exponent :: "real \<Rightarrow> int" where
  "exponent x = (if 1 \<le> x then floor_log2_ge1 x else floor_log2_lt1 1022 x)"

definition binary64 :: "real \<Rightarrow> real" where
  "binary64 x =
    (let q = 2 powi (exponent \<bar>x\<bar> - 52)
     in sgn x * (of_int (round_even (\<bar>x\<bar> / q)) * q))"

section \<open>The programs in double precision\<close>

text \<open>
  The vector methods with the rounding of each component operation. \<^verbatim>\<open>divideScalar\<close>
  rounds the reciprocal and then each product.
\<close>

definition add2_fl :: "(real \<Rightarrow> real) \<Rightarrow> Vector2 \<Rightarrow> Vector2 \<Rightarrow> Vector2" where
  "add2_fl fl v w = Vector2 (fl (xc v + xc w)) (fl (yc v + yc w))"

definition sub2_fl :: "(real \<Rightarrow> real) \<Rightarrow> Vector2 \<Rightarrow> Vector2 \<Rightarrow> Vector2" where
  "sub2_fl fl v w = Vector2 (fl (xc v - xc w)) (fl (yc v - yc w))"

definition multiplyScalar2_fl :: "(real \<Rightarrow> real) \<Rightarrow> Vector2 \<Rightarrow> real \<Rightarrow> Vector2" where
  "multiplyScalar2_fl fl v s = Vector2 (fl (xc v * s)) (fl (yc v * s))"

definition divideScalar2_fl :: "(real \<Rightarrow> real) \<Rightarrow> Vector2 \<Rightarrow> real \<Rightarrow> Vector2" where
  "divideScalar2_fl fl v s = multiplyScalar2_fl fl v (fl (1 / s))"

definition add3_fl :: "(real \<Rightarrow> real) \<Rightarrow> Vector3 \<Rightarrow> Vector3 \<Rightarrow> Vector3" where
  "add3_fl fl v w = Vector3 (fl (xc3 v + xc3 w)) (fl (yc3 v + yc3 w)) (fl (zc3 v + zc3 w))"

definition sub3_fl :: "(real \<Rightarrow> real) \<Rightarrow> Vector3 \<Rightarrow> Vector3 \<Rightarrow> Vector3" where
  "sub3_fl fl v w = Vector3 (fl (xc3 v - xc3 w)) (fl (yc3 v - yc3 w)) (fl (zc3 v - zc3 w))"

definition multiplyScalar3_fl :: "(real \<Rightarrow> real) \<Rightarrow> Vector3 \<Rightarrow> real \<Rightarrow> Vector3" where
  "multiplyScalar3_fl fl v s = Vector3 (fl (xc3 v * s)) (fl (yc3 v * s)) (fl (zc3 v * s))"

definition divideScalar3_fl :: "(real \<Rightarrow> real) \<Rightarrow> Vector3 \<Rightarrow> real \<Rightarrow> Vector3" where
  "divideScalar3_fl fl v s = multiplyScalar3_fl fl v (fl (1 / s))"

definition lengthSq3_fl :: "(real \<Rightarrow> real) \<Rightarrow> Vector3 \<Rightarrow> real" where
  "lengthSq3_fl fl v = fl (fl (fl (xc3 v * xc3 v) + fl (yc3 v * yc3 v)) + fl (zc3 v * zc3 v))"

text \<open>Changing the sign of a double is exact.\<close>

definition neg2 :: "Vector2 \<Rightarrow> Vector2" where
  "neg2 v = Vector2 (- xc v) (- yc v)"

definition neg3 :: "Vector3 \<Rightarrow> Vector3" where
  "neg3 v = Vector3 (- xc3 v) (- yc3 v) (- zc3 v)"



text \<open>
  The body of the inner loop. The literal \<^verbatim>\<open>0.0001\<close> is the double nearest to it;
  \<^verbatim>\<open>Math.sqrt\<close> is the correctly rounded square root; \<^verbatim>\<open>r.x * r.x + r.y * r.y\<close>
  rounds both products and their sum, and \<^verbatim>\<open>lengthSq()\<close> of three.js adds the three
  rounded products from the left.
\<close>

definition min_fl :: "(real \<Rightarrow> real) \<Rightarrow> real" where
  "min_fl fl = fl 0.0001"

definition mag_fl :: "(real \<Rightarrow> real) \<Rightarrow> real \<Rightarrow> real" where
  "mag_fl fl magSq = (let mag = fl (sqrt magSq) in if mag < 1 then 1 else mag)"

definition divisor_fl :: "(real \<Rightarrow> real) \<Rightarrow> real \<Rightarrow> real" where
  "divisor_fl fl magSq = fl (max magSq (min_fl fl) * mag_fl fl magSq)"

definition magSq2_fl :: "(real \<Rightarrow> real) \<Rightarrow> Vector2 \<Rightarrow> real" where
  "magSq2_fl fl r = fl (fl (xc r * xc r) + fl (yc r * yc r))"

definition tmp2_fl :: "(real \<Rightarrow> real) \<Rightarrow> Vector2 \<Rightarrow> Vector2 \<Rightarrow> Vector2" where
  "tmp2_fl fl p1 p2 =
    (let r = sub2_fl fl p2 p1 in divideScalar2_fl fl r (divisor_fl fl (magSq2_fl fl r)))"

definition tmp3_fl :: "(real \<Rightarrow> real) \<Rightarrow> Vector3 \<Rightarrow> Vector3 \<Rightarrow> Vector3" where
  "tmp3_fl fl p1 p2 =
    (let r = sub3_fl fl p2 p1 in divideScalar3_fl fl r (divisor_fl fl (lengthSq3_fl fl r)))"

definition pairForce_fl ::
  "(real \<Rightarrow> real) \<Rightarrow> nat \<Rightarrow> nat \<Rightarrow> Vector2 Body list \<Rightarrow> Vector2 Body list" where
  "pairForce_fl fl i j bodies =
    (let p1 = pos (bodies ! i); m1 = mass (bodies ! i);
         p2 = pos (bodies ! j); m2 = mass (bodies ! j);
         tmp = tmp2_fl fl p1 p2;
         bodies1 = bodies[i := (bodies ! i)
                     \<lparr>acc := add2_fl fl (acc (bodies ! i)) (multiplyScalar2_fl fl tmp m2)\<rparr>]
     in bodies1[j := (bodies1 ! j)
                     \<lparr>acc := sub2_fl fl (acc (bodies1 ! j)) (multiplyScalar2_fl fl tmp m1)\<rparr>])"

definition pairForce3_fl ::
  "(real \<Rightarrow> real) \<Rightarrow> nat \<Rightarrow> nat \<Rightarrow> Vector3 Body list \<Rightarrow> Vector3 Body list" where
  "pairForce3_fl fl i j bodies =
    (let p1 = pos (bodies ! i); m1 = mass (bodies ! i);
         p2 = pos (bodies ! j); m2 = mass (bodies ! j);
         tmp = tmp3_fl fl p1 p2;
         bodies1 = bodies[i := (bodies ! i)
                     \<lparr>acc := add3_fl fl (acc (bodies ! i)) (multiplyScalar3_fl fl tmp m2)\<rparr>]
     in bodies1[j := (bodies1 ! j)
                     \<lparr>acc := sub3_fl fl (acc (bodies1 ! j)) (multiplyScalar3_fl fl tmp m1)\<rparr>])"

lemma length_pairForce_fl [simp]: "length (pairForce_fl fl i j bodies) = length bodies"
  by (simp add: pairForce_fl_def Let_def)

lemma length_pairForce3_fl [simp]: "length (pairForce3_fl fl i j bodies) = length bodies"
  by (simp add: pairForce3_fl_def Let_def)

function jLoop_fl ::
  "(real \<Rightarrow> real) \<Rightarrow> nat \<Rightarrow> nat \<Rightarrow> Vector2 Body list \<Rightarrow> Vector2 Body list" where
  "jLoop_fl fl i j bodies =
    (if j < length bodies then jLoop_fl fl i (j + 1) (pairForce_fl fl i j bodies) else bodies)"
  by pat_completeness auto
termination
  by (relation "measure (\<lambda>(fl, i, j, bodies). length bodies - j)") auto

declare jLoop_fl.simps [simp del]

lemma length_jLoop_fl [simp]: "length (jLoop_fl fl i j bodies) = length bodies"
  by (induction fl i j bodies rule: jLoop_fl.induct) (subst jLoop_fl.simps, simp)

function iLoop_fl :: "(real \<Rightarrow> real) \<Rightarrow> nat \<Rightarrow> Vector2 Body list \<Rightarrow> Vector2 Body list" where
  "iLoop_fl fl i bodies =
    (if i < length bodies then iLoop_fl fl (i + 1) (jLoop_fl fl i (i + 1) bodies) else bodies)"
  by pat_completeness auto
termination
  by (relation "measure (\<lambda>(fl, i, bodies). length bodies - i)") auto

declare iLoop_fl.simps [simp del]

lemma length_iLoop_fl [simp]: "length (iLoop_fl fl i bodies) = length bodies"
  by (induction fl i bodies rule: iLoop_fl.induct) (subst iLoop_fl.simps, simp)

definition accumulate_fl :: "(real \<Rightarrow> real) \<Rightarrow> Vector2 Body list \<Rightarrow> Vector2 Body list" where
  "accumulate_fl fl bodies = iLoop_fl fl 0 bodies"

function jLoop3_fl ::
  "(real \<Rightarrow> real) \<Rightarrow> nat \<Rightarrow> nat \<Rightarrow> Vector3 Body list \<Rightarrow> Vector3 Body list" where
  "jLoop3_fl fl i j bodies =
    (if j < length bodies then jLoop3_fl fl i (j + 1) (pairForce3_fl fl i j bodies) else bodies)"
  by pat_completeness auto
termination
  by (relation "measure (\<lambda>(fl, i, j, bodies). length bodies - j)") auto

declare jLoop3_fl.simps [simp del]

lemma length_jLoop3_fl [simp]: "length (jLoop3_fl fl i j bodies) = length bodies"
  by (induction fl i j bodies rule: jLoop3_fl.induct) (subst jLoop3_fl.simps, simp)

function iLoop3_fl :: "(real \<Rightarrow> real) \<Rightarrow> nat \<Rightarrow> Vector3 Body list \<Rightarrow> Vector3 Body list" where
  "iLoop3_fl fl i bodies =
    (if i < length bodies then iLoop3_fl fl (i + 1) (jLoop3_fl fl i (i + 1) bodies) else bodies)"
  by pat_completeness auto
termination
  by (relation "measure (\<lambda>(fl, i, bodies). length bodies - i)") auto

declare iLoop3_fl.simps [simp del]

lemma length_iLoop3_fl [simp]: "length (iLoop3_fl fl i bodies) = length bodies"
  by (induction fl i bodies rule: iLoop3_fl.induct) (subst iLoop3_fl.simps, simp)

definition accumulate3_fl :: "(real \<Rightarrow> real) \<Rightarrow> Vector3 Body list \<Rightarrow> Vector3 Body list" where
  "accumulate3_fl fl bodies = iLoop3_fl fl 0 bodies"

text \<open>The boundary check: \<^verbatim>\<open>vel.x *= -1\<close> is a rounded product.\<close>

definition boundary_fl :: "(real \<Rightarrow> real) \<Rightarrow> Vector2 Body \<Rightarrow> Vector2 Body" where
  "boundary_fl fl b =
    (let b1 = (if xc (pos b) \<le> - 3 \<or> xc (pos b) \<ge> 3
               then b\<lparr>vel := Vector2 (fl (xc (vel b) * (- 1))) (yc (vel b))\<rparr> else b)
     in (if yc (pos b1) \<le> - 3 \<or> yc (pos b1) \<ge> 3
         then b1\<lparr>vel := Vector2 (xc (vel b1)) (fl (yc (vel b1) * (- 1)))\<rparr> else b1))"








section \<open>Notions used in the statements\<close>

text \<open>What the accumulation pass leaves alone in a body: everything but \<^verbatim>\<open>acc\<close>.\<close>

definition frame :: "'v Body \<Rightarrow> 'v \<times> 'v \<times> real" where
  "frame b = (pos b, vel b, mass b)"




section \<open>Auxiliary facts\<close>

lemma frame_acc [simp]: "frame (b\<lparr>acc := a\<rparr>) = frame b"
  by (simp add: frame_def)

lemma map_frame_update: "map frame (bs[i := (bs ! i)\<lparr>acc := a\<rparr>]) = map frame bs"
  by (cases "i < length bs") (simp_all add: map_update list_update_same_conv list_update_beyond)

lemma pairForce_frame: "map frame (pairForce i j bodies) = map frame bodies"
  by (simp add: pairForce_def Let_def map_frame_update)

lemma jLoop_frame: "map frame (jLoop i j bodies) = map frame bodies"
  by (induction i j bodies rule: jLoop.induct) (subst jLoop.simps, simp add: pairForce_frame)

lemma iLoop_frame: "map frame (iLoop i bodies) = map frame bodies"
  by (induction i bodies rule: iLoop.induct) (subst iLoop.simps, simp add: jLoop_frame)

lemma pairForce3_frame: "map frame (pairForce3 i j bodies) = map frame bodies"
  by (simp add: pairForce3_def Let_def map_frame_update)

lemma jLoop3_frame: "map frame (jLoop3 i j bodies) = map frame bodies"
  by (induction i j bodies rule: jLoop3.induct) (subst jLoop3.simps, simp add: pairForce3_frame)

lemma iLoop3_frame: "map frame (iLoop3 i bodies) = map frame bodies"
  by (induction i bodies rule: iLoop3.induct) (subst iLoop3.simps, simp add: jLoop3_frame)

lemma fields_of_frame:
  assumes "map frame xs = map frame ys"
  shows "map pos xs = map pos ys \<and> map vel xs = map vel ys \<and> map mass xs = map mass ys"
proof -
  have "map pos xs = map fst (map frame xs)" "map pos ys = map fst (map frame ys)"
    by (simp_all add: frame_def comp_def)
  moreover have "map vel xs = map (fst \<circ> snd) (map frame xs)"
    "map vel ys = map (fst \<circ> snd) (map frame ys)"
    by (simp_all add: frame_def comp_def)
  moreover have "map mass xs = map (snd \<circ> snd) (map frame xs)"
    "map mass ys = map (snd \<circ> snd) (map frame ys)"
    by (simp_all add: frame_def comp_def)
  ultimately show ?thesis using assms by simp
qed

lemma mag_of_ge_1: "1 \<le> mag_of s"
  by (simp add: mag_of_def Let_def)

lemma divisor_ge_min_c: "min_c \<le> divisor s"
proof -
  have "min_c * 1 \<le> max s min_c * mag_of s"
    using mag_of_ge_1[of s] by (intro mult_mono) (auto simp: min_c_def)
  then show ?thesis by (simp add: divisor_def)
qed

lemma divisor_4: "divisor 4 = 8"
  by (simp add: divisor_def mag_of_def min_c_def)

lemma accumulate_two_bodies:
  "accumulate [newBody (Vector2 (- 1) 0) (Vector2 0 0) 1, newBody (Vector2 1 0) (Vector2 0 0) 1]
   = [\<lparr>pos = Vector2 (- 1) 0, vel = Vector2 0 0, acc = Vector2 (1 / 4) 0, mass = 1\<rparr>,
      \<lparr>pos = Vector2 1 0, vel = Vector2 0 0, acc = Vector2 (- (1 / 4)) 0, mass = 1\<rparr>]"
  by (simp add: accumulate_def iLoop.simps jLoop.simps pairForce_def tmp2_def Let_def newBody_def
      sub2_def add2_def multiplyScalar2_def divideScalar2_def magSq2_def divisor_4)

lemma length_accumulate [simp]: "length (accumulate bodies) = length bodies"
  by (simp add: accumulate_def)

lemma length_accumulate3 [simp]: "length (accumulate3 bodies) = length bodies"
  by (simp add: accumulate3_def)

lemma acc_boundary_update: "acc (boundary (update dt b)) = Vector2 0 0"
  by (simp add: boundary_def update_def Let_def)

lemma animate_acc: "map acc (animate dt bodies) = replicate (length bodies) (Vector2 0 0)"
  by (simp add: animate_def comp_def acc_boundary_update map_replicate_const)

lemma animate3_acc: "map acc (animate3 dt bodies) = replicate (length bodies) (Vector3 0 0 0)"
  by (simp add: animate3_def comp_def update3_def Let_def map_replicate_const)

lemma length_animate [simp]: "length (animate dt bodies) = length bodies"
  by (simp add: animate_def)

lemma length_animate3 [simp]: "length (animate3 dt bodies) = length bodies"
  by (simp add: animate3_def)

lemma length_frames [simp]: "length ((animate dt ^^ k) bodies) = length bodies"
  by (induction k) simp_all

lemma length_frames3 [simp]: "length ((animate3 dt ^^ k) bodies) = length bodies"
  by (induction k) simp_all

lemma frames_acc:
  "map acc bodies = replicate (length bodies) (Vector2 0 0)
   \<Longrightarrow> map acc ((animate dt ^^ k) bodies) = replicate (length bodies) (Vector2 0 0)"
  using animate_acc [of dt "(animate dt ^^ (k - 1)) bodies"]
  by (cases k) simp_all

lemma frames3_acc:
  "map acc bodies = replicate (length bodies) (Vector3 0 0 0)
   \<Longrightarrow> map acc ((animate3 dt ^^ k) bodies) = replicate (length bodies) (Vector3 0 0 0)"
  using animate3_acc [of dt "(animate3 dt ^^ (k - 1)) bodies"]
  by (cases k) simp_all



text \<open>The sums of the centring, componentwise.\<close>

lemma fold_add2:
  "fold (\<lambda>body sum. add2 sum (g body)) bs z
   = Vector2 (xc z + sum_list (map (\<lambda>b. xc (g b)) bs)) (yc z + sum_list (map (\<lambda>b. yc (g b)) bs))"
  by (induction bs arbitrary: z) (simp_all add: add2_def add.assoc)

lemma velSum_sum:
  "velSum bs = Vector2 (sum_list (map (\<lambda>b. xc (vel b) * mass b) bs) / real n)
                       (sum_list (map (\<lambda>b. yc (vel b) * mass b) bs) / real n)"
  by (simp add: velSum_def fold_add2 divideScalar2_def multiplyScalar2_def)

lemma posSum_sum:
  "posSum bs = Vector2 (sum_list (map (\<lambda>b. xc (pos b) * mass b) bs) / real n)
                       (sum_list (map (\<lambda>b. yc (pos b) * mass b) bs) / real n)"
  by (simp add: posSum_def fold_add2 divideScalar2_def multiplyScalar2_def)

lemma sum_list_shift:
  "(\<forall>b\<in>set bs. w b = 2) \<Longrightarrow>
   sum_list (map (\<lambda>b. (f b - c) * w b) bs)
     = sum_list (map (\<lambda>b. f b * w b) bs) - real (length bs) * (c * 2)"
  by (induction bs) (simp_all add: algebra_simps)

lemma createBodies_length: "length (createBodies random) = n"
  by (simp add: createBodies_def)

lemma createBodies_mass: "\<forall>b\<in>set (createBodies random). mass b = 2"
  by (simp add: createBodies_def newBody_def Let_def)

lemma centre_vel_sums:
  "sum_list (map (\<lambda>b. xc (vel b) * mass b) (centre bs))
     = sum_list (map (\<lambda>b. (xc (vel b) - xc (velSum bs)) * mass b) bs)"
  "sum_list (map (\<lambda>b. yc (vel b) * mass b) (centre bs))
     = sum_list (map (\<lambda>b. (yc (vel b) - yc (velSum bs)) * mass b) bs)"
  by (simp_all add: centre_def Let_def comp_def sub2_def)

lemma centre_pos_sums:
  "sum_list (map (\<lambda>b. xc (pos b) * mass b) (centre bs))
     = sum_list (map (\<lambda>b. (xc (pos b) - xc (posSum bs)) * mass b) bs)"
  "sum_list (map (\<lambda>b. yc (pos b) * mass b) (centre bs))
     = sum_list (map (\<lambda>b. (yc (pos b) - yc (posSum bs)) * mass b) bs)"
  by (simp_all add: centre_def Let_def comp_def sub2_def)

lemma velSum_centre:
  assumes "length bs = n" and "\<forall>b\<in>set bs. mass b = 2"
  shows "velSum (centre bs) = multiplyScalar2 (velSum bs) (- 1)"
proof -
  have x: "xc (velSum bs) = sum_list (map (\<lambda>b. xc (vel b) * mass b) bs) / real n"
    and y: "yc (velSum bs) = sum_list (map (\<lambda>b. yc (vel b) * mass b) bs) / real n"
    by (simp_all add: velSum_sum)
  have "xc (velSum (centre bs)) = - xc (velSum bs)"
    unfolding velSum_sum [of "centre bs"] centre_vel_sums sum_list_shift [OF assms(2)] assms(1)
    by (simp add: x n_def)
  moreover have "yc (velSum (centre bs)) = - yc (velSum bs)"
    unfolding velSum_sum [of "centre bs"] centre_vel_sums sum_list_shift [OF assms(2)] assms(1)
    by (simp add: y n_def)
  ultimately show ?thesis
    by (simp add: multiplyScalar2_def Vector2.expand)
qed

lemma posSum_centre:
  assumes "length bs = n" and "\<forall>b\<in>set bs. mass b = 2"
  shows "posSum (centre bs) = multiplyScalar2 (posSum bs) (- 1)"
proof -
  have x: "xc (posSum bs) = sum_list (map (\<lambda>b. xc (pos b) * mass b) bs) / real n"
    and y: "yc (posSum bs) = sum_list (map (\<lambda>b. yc (pos b) * mass b) bs) / real n"
    by (simp_all add: posSum_sum)
  have "xc (posSum (centre bs)) = - xc (posSum bs)"
    unfolding posSum_sum [of "centre bs"] centre_pos_sums sum_list_shift [OF assms(2)] assms(1)
    by (simp add: x n_def)
  moreover have "yc (posSum (centre bs)) = - yc (posSum bs)"
    unfolding posSum_sum [of "centre bs"] centre_pos_sums sum_list_shift [OF assms(2)] assms(1)
    by (simp add: y n_def)
  ultimately show ?thesis
    by (simp add: multiplyScalar2_def Vector2.expand)
qed

text \<open>The initialisation on a sample in which all bodies are drawn alike.\<close>

lemma max_funpow_same: "(max x ^^ k) (x::real) = x"
  by (induction k) simp_all

lemma Math_max_replicate: "0 < k \<Longrightarrow> Math_max (replicate k x) = Some x"
  by (cases k) (simp_all add: max_funpow_same)

lemma velSum_replicate:
  "velSum (replicate n b) = Vector2 (xc (vel b) * mass b) (yc (vel b) * mass b)"
  by (simp add: velSum_sum sum_list_replicate n_def)

lemma posSum_replicate:
  "posSum (replicate n b) = Vector2 (xc (pos b) * mass b) (yc (pos b) * mass b)"
  by (simp add: posSum_sum sum_list_replicate n_def)

lemma maxRadius_replicate: "maxRadius (replicate n b) = Some (length2 (pos b))"
  by (simp add: maxRadius_def Math_max_replicate n_def)

lemma createBodies_sample:
  "createBodies (\<lambda>k. if even k then 0 else 1 / 2)
   = replicate n \<lparr>pos = Vector2 (1 / 2) 0, vel = Vector2 (1 / 1000) 0, acc = Vector2 0 0, mass = 2\<rparr>"
  by (simp add: createBodies_def randDisc_def multiplyScalar2_def newBody_def Let_def
      map_replicate_const)

lemma centre_replicate:
  "centre (replicate n b)
   = replicate n (b\<lparr>vel := sub2 (vel b) (Vector2 (xc (vel b) * mass b) (yc (vel b) * mass b)),
                    pos := sub2 (pos b) (Vector2 (xc (pos b) * mass b) (yc (pos b) * mass b))\<rparr>)"
  by (simp add: centre_def Let_def velSum_replicate posSum_replicate)

lemma init_sample:
  "init (\<lambda>k. if even k then 0 else 1 / 2)
   = Some (replicate n \<lparr>pos = Vector2 (- 1) 0, vel = Vector2 (- (1 / 1000)) 0,
                         acc = Vector2 0 0, mass = 2\<rparr>)"
  by (simp add: init_def createBodies_sample centre_replicate rescale_def maxRadius_replicate
      sub2_def length2_def divideScalar2_def multiplyScalar2_def real_sqrt_divide)

text \<open>The initial states have zero accelerations.\<close>

lemma createBodies_acc: "map acc (createBodies random) = replicate n (Vector2 0 0)"
  by (simp add: createBodies_def comp_def newBody_def Let_def map_replicate_const)

lemma createBodies3_acc: "map acc (createBodies3 random) = replicate n (Vector3 0 0 0)"
  by (simp add: createBodies3_def comp_def newBody3_def Let_def map_replicate_const)

lemma createBodies3_length: "length (createBodies3 random) = n"
  by (simp add: createBodies3_def)

lemma centre_acc: "map acc (centre bodies) = map acc bodies"
  by (simp add: centre_def Let_def comp_def)

lemma rescale_acc: "rescale bodies = Some bodies' \<Longrightarrow> map acc bodies' = map acc bodies"
  by (auto simp: rescale_def comp_def split: option.splits if_splits)

lemma init_acc: "init random = Some bodies \<Longrightarrow> map acc bodies = replicate n (Vector2 0 0)"
  using rescale_acc [of "centre (createBodies random)" bodies]
  by (simp add: init_def centre_acc createBodies_acc)

lemma init_length: "init random = Some bodies \<Longrightarrow> length bodies = n"
  using arg_cong [OF init_acc [of random bodies], of length] by simp

text \<open>The rounding function: its exponent is the right one, and it rounds to a nearest double.\<close>

lemma floor_log2_lt1_step:
  "0 < k \<Longrightarrow> floor_log2_lt1 k x = (if 1 \<le> x then 0 else floor_log2_lt1 (k - 1) (2 * x) - 1)"
  by (cases k) simp_all

lemma round_even_nearest: "\<bar>of_int (round_even m) - m\<bar> \<le> 1 / 2"
  unfolding round_even_def Let_def by (auto simp: abs_le_iff)

lemma floor_log2_ge1_bounds:
  "1 \<le> x \<Longrightarrow> 2 powi (floor_log2_ge1 x) \<le> x \<and> x < 2 powi (floor_log2_ge1 x + 1)"
proof (induction x rule: floor_log2_ge1.induct)
  case (1 x)
  show ?case
  proof (cases "x < 2")
    case True
    with "1.prems" show ?thesis by (subst (1 2) floor_log2_ge1.simps) simp
  next
    case False
    then have "1 \<le> x / 2" by simp
    from "1.IH" [OF False this] False show ?thesis
      by (subst (1 2) floor_log2_ge1.simps) (simp add: power_int_add)
  qed
qed

lemma floor_log2_lt1_bounds:
  "0 < x \<Longrightarrow> x < 1 \<Longrightarrow> 2 powi (- int k) \<le> x \<Longrightarrow>
   2 powi (floor_log2_lt1 k x) \<le> x \<and> x < 2 powi (floor_log2_lt1 k x + 1)"
proof (induction k arbitrary: x)
  case 0
  then show ?case by simp
next
  case (Suc k)
  show ?case
  proof (cases "1 \<le> 2 * x")
    case True
    with Suc.prems show ?thesis
      by (cases k) (simp_all add: power_int_minus)
  next
    case False
    have "- int (Suc k) = - int k - 1" by simp
    with Suc.prems(3) have "(2::real) powi (- int k - 1) \<le> x" by (simp only:)
    moreover have "(2::real) powi (- int k - 1) = 2 powi (- int k) / 2"
      by (simp add: power_int_diff)
    ultimately have "2 powi (- int k) / 2 \<le> x" by (simp only:)
    then have "2 powi (- int k) \<le> 2 * x" by simp
    from Suc.IH [OF _ _ this] False Suc.prems
    have "2 powi floor_log2_lt1 k (2 * x) \<le> 2 * x \<and> 2 * x < 2 powi (floor_log2_lt1 k (2 * x) + 1)"
      by simp
    then show ?thesis
      using Suc.prems by (simp add: power_int_diff power_int_add)
  qed
qed

lemma binary64_0 [simp]: "binary64 0 = 0"
  by (simp add: binary64_def)

lemma binary64_minus: "binary64 (- x) = - binary64 x"
  by (simp add: binary64_def Let_def sgn_minus)

text \<open>The values of \<open>binary64\<close> that the examples below need, each with its exponent.\<close>

lemma exponent_v0: "exponent (1 / 125) = - 7"
  by (simp add: exponent_def floor_log2_ge1.simps floor_log2_lt1_step)

lemma binary64_v0: "binary64 (1 / 125) = 1152921504606847 / 144115188075855872"
  by (simp add: binary64_def exponent_v0 round_even_def Let_def power_int_minus)

lemma exponent_v1: "exponent (5764607523034235 / 144115188075855872) = - 5"
  by (simp add: exponent_def floor_log2_ge1.simps floor_log2_lt1_step)

lemma binary64_v1: "binary64 (5764607523034235 / 144115188075855872) = 5764607523034235 / 144115188075855872"
  by (simp add: binary64_def exponent_v1 round_even_def Let_def power_int_minus)

lemma exponent_v2: "exponent (40352252661239645 / 144115188075855872) = - 2"
  by (simp add: exponent_def floor_log2_ge1.simps floor_log2_lt1_step)

lemma binary64_v2: "binary64 (40352252661239645 / 144115188075855872) = 1261007895663739 / 4503599627370496"
  by (simp add: binary64_def exponent_v2 round_even_def Let_def power_int_minus)

lemma exponent_v3: "exponent (17293822569102705 / 144115188075855872) = - 4"
  by (simp add: exponent_def floor_log2_ge1.simps floor_log2_lt1_step)

lemma binary64_v3: "binary64 (17293822569102705 / 144115188075855872) = 1080863910568919 / 9007199254740992"
  by (simp add: binary64_def exponent_v3 round_even_def Let_def power_int_minus)

lemma exponent_v4: "exponent (1261007895663739 / 4503599627370496) = - 2"
  by (simp add: exponent_def floor_log2_ge1.simps floor_log2_lt1_step)

lemma binary64_v4: "binary64 (1261007895663739 / 4503599627370496) = 1261007895663739 / 4503599627370496"
  by (simp add: binary64_def exponent_v4 round_even_def Let_def power_int_minus)

lemma exponent_v5: "exponent (1080863910568919 / 9007199254740992) = - 4"
  by (simp add: exponent_def floor_log2_ge1.simps floor_log2_lt1_step)

lemma binary64_v5: "binary64 (1080863910568919 / 9007199254740992) = 1080863910568919 / 9007199254740992"
  by (simp add: binary64_def exponent_v5 round_even_def Let_def power_int_minus)

lemma exponent_v6: "exponent (3783023686991217 / 4503599627370496) = - 1"
  by (simp add: exponent_def floor_log2_ge1.simps floor_log2_lt1_step)

lemma binary64_v6: "binary64 (3783023686991217 / 4503599627370496) = 3783023686991217 / 4503599627370496"
  by (simp add: binary64_def exponent_v6 round_even_def Let_def power_int_minus)

lemma exponent_v7: "exponent (7566047373982433 / 9007199254740992) = - 1"
  by (simp add: exponent_def floor_log2_ge1.simps floor_log2_lt1_step)

lemma binary64_v7: "binary64 (7566047373982433 / 9007199254740992) = 7566047373982433 / 9007199254740992"
  by (simp add: binary64_def exponent_v7 round_even_def Let_def power_int_minus)

lemma exponent_v8: "exponent (1 / 10000) = - 14"
  by (simp add: exponent_def floor_log2_ge1.simps floor_log2_lt1_step)

lemma binary64_v8: "binary64 (1 / 10000) = 7378697629483821 / 73786976294838206464"
  by (simp add: binary64_def exponent_v8 round_even_def Let_def power_int_minus)

lemma exponent_v9: "exponent (5) = 2"
  by (simp add: exponent_def floor_log2_ge1.simps floor_log2_lt1_step)

lemma binary64_v9: "binary64 (5) = 5"
  by (simp add: binary64_def exponent_v9 round_even_def Let_def power_int_minus)

lemma exponent_v10: "exponent (25) = 4"
  by (simp add: exponent_def floor_log2_ge1.simps floor_log2_lt1_step)

lemma binary64_v10: "binary64 (25) = 25"
  by (simp add: binary64_def exponent_v10 round_even_def Let_def power_int_minus)

lemma exponent_v11: "exponent (125) = 6"
  by (simp add: exponent_def floor_log2_ge1.simps floor_log2_lt1_step)

lemma binary64_v11: "binary64 (125) = 125"
  by (simp add: binary64_def exponent_v11 round_even_def Let_def power_int_minus)

lemma exponent_v12: "exponent (1) = 0"
  by (simp add: exponent_def floor_log2_ge1.simps floor_log2_lt1_step)

lemma binary64_v12: "binary64 (1) = 1"
  by (simp add: binary64_def exponent_v12 round_even_def Let_def power_int_minus)

lemma exponent_v13: "exponent (2) = 1"
  by (simp add: exponent_def floor_log2_ge1.simps floor_log2_lt1_step)

lemma binary64_v13: "binary64 (2) = 2"
  by (simp add: binary64_def exponent_v13 round_even_def Let_def power_int_minus)

lemma exponent_v14: "exponent (3) = 1"
  by (simp add: exponent_def floor_log2_ge1.simps floor_log2_lt1_step)

lemma binary64_v14: "binary64 (3) = 3"
  by (simp add: binary64_def exponent_v14 round_even_def Let_def power_int_minus)

lemma exponent_v15: "exponent (4) = 2"
  by (simp add: exponent_def floor_log2_ge1.simps floor_log2_lt1_step)

lemma binary64_v15: "binary64 (4) = 4"
  by (simp add: binary64_def exponent_v15 round_even_def Let_def power_int_minus)

lemma exponent_v16: "exponent (5764607523034235 / 72057594037927936) = - 4"
  by (simp add: exponent_def floor_log2_ge1.simps floor_log2_lt1_step)

lemma binary64_v16: "binary64 (5764607523034235 / 72057594037927936) = 5764607523034235 / 72057594037927936"
  by (simp add: binary64_def exponent_v16 round_even_def Let_def power_int_minus)

lemma exponent_v17: "exponent (5764607523034235 / 36028797018963968) = - 3"
  by (simp add: exponent_def floor_log2_ge1.simps floor_log2_lt1_step)

lemma binary64_v17: "binary64 (5764607523034235 / 36028797018963968) = 5764607523034235 / 36028797018963968"
  by (simp add: binary64_def exponent_v17 round_even_def Let_def power_int_minus)

lemmas binary64_values = binary64_v0 binary64_v1 binary64_v2 binary64_v3 binary64_v4 binary64_v5 binary64_v6 binary64_v7 binary64_v8 binary64_v9 binary64_v10 binary64_v11 binary64_v12 binary64_v13 binary64_v14 binary64_v15 binary64_v16 binary64_v17

lemma sqrt_25: "sqrt 25 = 5"
  using real_sqrt_abs2 [of 5] by simp

text \<open>The pair term in double precision.\<close>

lemma tmp2_fl_5:
  "tmp2_fl binary64 (Vector2 0 0) (Vector2 5 0) = Vector2 (5764607523034235 / 144115188075855872) 0"
  by (simp add: tmp2_fl_def sub2_fl_def magSq2_fl_def divisor_fl_def mag_fl_def min_fl_def
      divideScalar2_fl_def multiplyScalar2_fl_def sqrt_25 binary64_values)

lemma tmp3_fl_5:
  "tmp3_fl binary64 (Vector3 0 0 0) (Vector3 0 5 0) = Vector3 0 (5764607523034235 / 144115188075855872) 0"
  by (simp add: tmp3_fl_def sub3_fl_def lengthSq3_fl_def divisor_fl_def mag_fl_def min_fl_def
      divideScalar3_fl_def multiplyScalar3_fl_def sqrt_25 binary64_values)

lemma sub2_fl_neg: "sub2_fl fl a s = add2_fl fl a (neg2 s)"
  by (simp add: sub2_fl_def add2_fl_def neg2_def)

lemma sub3_fl_neg: "sub3_fl fl a s = add3_fl fl a (neg3 s)"
  by (simp add: sub3_fl_def add3_fl_def neg3_def)

lemma multiplyScalar2_fl_neg:
  "multiplyScalar2_fl binary64 (neg2 v) m = neg2 (multiplyScalar2_fl binary64 v m)"
  by (simp add: multiplyScalar2_fl_def neg2_def binary64_minus)

lemma multiplyScalar3_fl_neg:
  "multiplyScalar3_fl binary64 (neg3 v) m = neg3 (multiplyScalar3_fl binary64 v m)"
  by (simp add: multiplyScalar3_fl_def neg3_def binary64_minus)

lemma neg2_neg2 [simp]: "neg2 (neg2 v) = v"
  by (simp add: neg2_def)

lemma neg3_neg3 [simp]: "neg3 (neg3 v) = v"
  by (simp add: neg3_def)

text \<open>A single body and whole runs in double precision.\<close>

lemma length_accumulate_fl [simp]: "length (accumulate_fl fl bodies) = length bodies"
  by (simp add: accumulate_fl_def)

lemma length_accumulate3_fl [simp]: "length (accumulate3_fl fl bodies) = length bodies"
  by (simp add: accumulate3_fl_def)







lemma pos_boundary_fl [simp]: "pos (boundary_fl fl b) = pos b"
  by (simp add: boundary_fl_def Let_def)














section \<open>The integration update\<close>

text \<open>
  C3. One \<^verbatim>\<open>update(dt)\<close> leaves the body with position = old position + old velocity
  * dt (the velocity read is the one from before the update), velocity = old velocity +
  accumulated acceleration * dt, acceleration = the zero vector, and the mass it had;
  the position statement runs before the velocity statement. This is the scheme the
  specification's glossary calls semi-implicit Euler. Both programs.
\<close>

theorem update_position_then_velocity:
  "update dt b = \<lparr>pos = add2 (pos b) (multiplyScalar2 (vel b) dt),
                  vel = add2 (vel b) (multiplyScalar2 (acc b) dt),
                  acc = Vector2 0 0, mass = mass b\<rparr>
   \<and> update3 dt c = \<lparr>pos = add3 (pos c) (multiplyScalar3 (vel c) dt),
                    vel = add3 (vel c) (multiplyScalar3 (acc c) dt),
                    acc = Vector3 0 0 0, mass = mass c\<rparr>"
  by (simp add: update_def update3_def Let_def)

section \<open>The pairwise force term\<close>

text \<open>
  C6. For every two positions, equal ones included, the divisor
  \<^verbatim>\<open>Math.max(magSq, min) * mag\<close> of the 2D program is at least \<open>1e-4\<close> and positive;
  for two bodies at the same point it is exactly \<open>1e-4\<close>. The division that forms
  \<^verbatim>\<open>tmp\<close> is by this divisor.
\<close>

theorem divisor_at_least_min:
  "1 / 10000 \<le> divisor (magSq2 (sub2 p2 p1)) \<and> 0 < divisor (magSq2 (sub2 p2 p1))
   \<and> divisor (magSq2 (sub2 p p)) = 1 / 10000
   \<and> tmp2 p1 p2 = divideScalar2 (sub2 p2 p1) (divisor (magSq2 (sub2 p2 p1)))"
proof -
  have a: "1 / 10000 \<le> divisor (magSq2 (sub2 p2 p1))"
    using divisor_ge_min_c[of "magSq2 (sub2 p2 p1)"] by (simp add: min_c_def)
  have b: "divisor (magSq2 (sub2 p p)) = 1 / 10000"
    by (simp add: divisor_def mag_of_def magSq2_def sub2_def min_c_def)
  have c: "tmp2 p1 p2 = divideScalar2 (sub2 p2 p1) (divisor (magSq2 (sub2 p2 p1)))"
    by (simp add: tmp2_def Let_def)
  from a have "0 < divisor (magSq2 (sub2 p2 p1))" by simp
  with a b c show ?thesis by simp
qed

text \<open>
  C4, as stated, fails in double precision. Bodies of mass 3 at \<open>(0, 0)\<close> and of mass 7 at
  \<open>(5, 0)\<close>, both accelerations zero before the iteration: the contribution to the first
  body times its mass is \<open>0.8400000000000001\<close>, the negated contribution to the second
  times its mass is \<open>0.84\<close>. The two products \<open>tmp * 7\<close> and \<open>tmp * 3\<close> are rounded
  before they are multiplied by the other mass.
\<close>

theorem pairForce_third_law_counterexample:
  "multiplyScalar2_fl binary64
     (acc (pairForce_fl binary64 0 1
        [newBody (Vector2 0 0) (Vector2 0 0) 3, newBody (Vector2 5 0) (Vector2 0 0) 7] ! 0)) 3
     = Vector2 (3783023686991217 / 2 ^ 52) 0
   \<and> neg2 (multiplyScalar2_fl binary64
     (acc (pairForce_fl binary64 0 1
        [newBody (Vector2 0 0) (Vector2 0 0) 3, newBody (Vector2 5 0) (Vector2 0 0) 7] ! 1)) 7)
     = Vector2 (7566047373982433 / 2 ^ 53) 0
   \<and> multiplyScalar2_fl binary64
     (acc (pairForce_fl binary64 0 1
        [newBody (Vector2 0 0) (Vector2 0 0) 3, newBody (Vector2 5 0) (Vector2 0 0) 7] ! 0)) 3
     \<noteq> neg2 (multiplyScalar2_fl binary64
     (acc (pairForce_fl binary64 0 1
        [newBody (Vector2 0 0) (Vector2 0 0) 3, newBody (Vector2 5 0) (Vector2 0 0) 7] ! 1)) 7)"
  by (simp add: pairForce_fl_def Let_def newBody_def tmp2_fl_5 add2_fl_def sub2_fl_def
      multiplyScalar2_fl_def neg2_def binary64_minus binary64_values)

text \<open>
  C4, amended. One iteration of the inner loop for a pair \<open>i < j\<close>, in double precision:
  the new acceleration of body \<open>i\<close> is the old one plus the contribution \<open>tmp * m\<^sub>j\<close>, and
  the new acceleration of body \<open>j\<close> is the old one plus the contribution \<open>-(tmp * m\<^sub>i)\<close>,
  with the same \<open>tmp\<close>. When the two masses are equal (as they are in both programs),
  the contribution to \<open>i\<close> times \<open>m\<^sub>i\<close> is exactly the negation of the contribution to
  \<open>j\<close> times \<open>m\<^sub>j\<close>. Both programs.
\<close>

theorem pairForce_third_law_equal_masses:
  assumes "i < j" and "j < length bodies" and "j < length bodies'"
  shows "acc (pairForce_fl binary64 i j bodies ! i)
           = add2_fl binary64 (acc (bodies ! i))
               (multiplyScalar2_fl binary64 (tmp2_fl binary64 (pos (bodies ! i)) (pos (bodies ! j)))
                  (mass (bodies ! j)))
       \<and> acc (pairForce_fl binary64 i j bodies ! j)
           = add2_fl binary64 (acc (bodies ! j))
               (neg2 (multiplyScalar2_fl binary64 (tmp2_fl binary64 (pos (bodies ! i)) (pos (bodies ! j)))
                  (mass (bodies ! i))))
       \<and> (mass (bodies ! i) = mass (bodies ! j) \<longrightarrow>
            multiplyScalar2_fl binary64
              (multiplyScalar2_fl binary64 (tmp2_fl binary64 (pos (bodies ! i)) (pos (bodies ! j)))
                 (mass (bodies ! j))) (mass (bodies ! i))
            = neg2 (multiplyScalar2_fl binary64
                (neg2 (multiplyScalar2_fl binary64 (tmp2_fl binary64 (pos (bodies ! i)) (pos (bodies ! j)))
                   (mass (bodies ! i)))) (mass (bodies ! j))))
       \<and> acc (pairForce3_fl binary64 i j bodies' ! i)
           = add3_fl binary64 (acc (bodies' ! i))
               (multiplyScalar3_fl binary64 (tmp3_fl binary64 (pos (bodies' ! i)) (pos (bodies' ! j)))
                  (mass (bodies' ! j)))
       \<and> acc (pairForce3_fl binary64 i j bodies' ! j)
           = add3_fl binary64 (acc (bodies' ! j))
               (neg3 (multiplyScalar3_fl binary64 (tmp3_fl binary64 (pos (bodies' ! i)) (pos (bodies' ! j)))
                  (mass (bodies' ! i))))
       \<and> (mass (bodies' ! i) = mass (bodies' ! j) \<longrightarrow>
            multiplyScalar3_fl binary64
              (multiplyScalar3_fl binary64 (tmp3_fl binary64 (pos (bodies' ! i)) (pos (bodies' ! j)))
                 (mass (bodies' ! j))) (mass (bodies' ! i))
            = neg3 (multiplyScalar3_fl binary64
                (neg3 (multiplyScalar3_fl binary64 (tmp3_fl binary64 (pos (bodies' ! i)) (pos (bodies' ! j)))
                   (mass (bodies' ! i)))) (mass (bodies' ! j))))"
  using assms
  by (simp add: pairForce_fl_def pairForce3_fl_def Let_def sub2_fl_neg sub3_fl_neg
      multiplyScalar2_fl_neg multiplyScalar3_fl_neg)

theorem pairForce_third_law_equal_masses_witness:
  "(0::nat) < 1
   \<and> 1 < length [newBody (Vector2 0 0) (Vector2 0 0) 2, newBody (Vector2 5 0) (Vector2 0 0) 2]
   \<and> 1 < length [newBody3 (Vector3 0 0 0) (Vector3 0 0 0) 1, newBody3 (Vector3 0 5 0) (Vector3 0 0 0) 1]
   \<and> mass ([newBody (Vector2 0 0) (Vector2 0 0) 2, newBody (Vector2 5 0) (Vector2 0 0) 2] ! 0)
       = mass ([newBody (Vector2 0 0) (Vector2 0 0) 2, newBody (Vector2 5 0) (Vector2 0 0) 2] ! 1)
   \<and> mass ([newBody3 (Vector3 0 0 0) (Vector3 0 0 0) 1, newBody3 (Vector3 0 5 0) (Vector3 0 0 0) 1] ! 0)
       = mass ([newBody3 (Vector3 0 0 0) (Vector3 0 0 0) 1, newBody3 (Vector3 0 5 0) (Vector3 0 0 0) 1] ! 1)
   \<and> acc (pairForce_fl binary64 0 1
        [newBody (Vector2 0 0) (Vector2 0 0) 2, newBody (Vector2 5 0) (Vector2 0 0) 2] ! 0)
       = Vector2 (5764607523034235 / 72057594037927936) 0
   \<and> acc (pairForce_fl binary64 0 1
        [newBody (Vector2 0 0) (Vector2 0 0) 2, newBody (Vector2 5 0) (Vector2 0 0) 2] ! 1)
       = Vector2 (- (5764607523034235 / 72057594037927936)) 0
   \<and> multiplyScalar2_fl binary64 (Vector2 (5764607523034235 / 72057594037927936) 0) 2
       = neg2 (multiplyScalar2_fl binary64 (Vector2 (- (5764607523034235 / 72057594037927936)) 0) 2)
   \<and> acc (pairForce3_fl binary64 0 1
        [newBody3 (Vector3 0 0 0) (Vector3 0 0 0) 1, newBody3 (Vector3 0 5 0) (Vector3 0 0 0) 1] ! 0)
       = Vector3 0 (5764607523034235 / 144115188075855872) 0
   \<and> acc (pairForce3_fl binary64 0 1
        [newBody3 (Vector3 0 0 0) (Vector3 0 0 0) 1, newBody3 (Vector3 0 5 0) (Vector3 0 0 0) 1] ! 1)
       = Vector3 0 (- (5764607523034235 / 144115188075855872)) 0"
  using pairForce_third_law_equal_masses [of 0 1
      "[newBody (Vector2 0 0) (Vector2 0 0) 2, newBody (Vector2 5 0) (Vector2 0 0) 2]"
      "[newBody3 (Vector3 0 0 0) (Vector3 0 0 0) 1, newBody3 (Vector3 0 5 0) (Vector3 0 0 0) 1]"]
  by (simp add: newBody_def newBody3_def tmp2_fl_5 tmp3_fl_5 add2_fl_def add3_fl_def
      multiplyScalar2_fl_def multiplyScalar3_fl_def neg2_def neg3_def binary64_minus binary64_values)

text \<open>
  C10. The accumulation pass changes no position, no velocity and no mass, and keeps
  the number of bodies; only accelerations can differ afterwards. Both programs.
\<close>

theorem accumulate_changes_acc_only:
  "map pos (accumulate bodies) = map pos bodies
   \<and> map vel (accumulate bodies) = map vel bodies
   \<and> map mass (accumulate bodies) = map mass bodies
   \<and> length (accumulate bodies) = length bodies
   \<and> map pos (accumulate3 bodies') = map pos bodies'
   \<and> map vel (accumulate3 bodies') = map vel bodies'
   \<and> map mass (accumulate3 bodies') = map mass bodies'
   \<and> length (accumulate3 bodies') = length bodies'"
  using fields_of_frame [OF iLoop_frame [of 0 bodies]]
    fields_of_frame [OF iLoop3_frame [of 0 bodies']]
  by (simp add: accumulate_def accumulate3_def)

section \<open>The boundary check\<close>

text \<open>
  C5. In the 2D program the boundary check runs on each body right after its update.
  It never changes the position (nor acceleration or mass). On each axis by itself, the
  velocity component is negated exactly when the coordinate is \<open>\<le> -3\<close> or \<open>\<ge> 3\<close>; a
  body strictly inside \<open>(-3, 3)\<close> on both axes keeps its velocity.
\<close>

theorem boundary_reflects_velocity_only:
  "animate dt bodies = map boundary (map (update dt) (accumulate bodies))
   \<and> pos (boundary b) = pos b \<and> acc (boundary b) = acc b \<and> mass (boundary b) = mass b
   \<and> xc (vel (boundary b))
       = (if xc (pos b) \<le> - 3 \<or> xc (pos b) \<ge> 3 then - xc (vel b) else xc (vel b))
   \<and> yc (vel (boundary b))
       = (if yc (pos b) \<le> - 3 \<or> yc (pos b) \<ge> 3 then - yc (vel b) else yc (vel b))
   \<and> (- 3 < xc (pos b) \<and> xc (pos b) < 3 \<and> - 3 < yc (pos b) \<and> yc (pos b) < 3
        \<longrightarrow> vel (boundary b) = vel b)"
  by (simp add: animate_def boundary_def Let_def)

theorem boundary_reflects_velocity_only_witness:
  "pos (boundary \<lparr>pos = Vector2 (7 / 2) (- 3), vel = Vector2 1 (- 5), acc = Vector2 0 0, mass = 2\<rparr>)
     = Vector2 (7 / 2) (- 3)
   \<and> vel (boundary \<lparr>pos = Vector2 (7 / 2) (- 3), vel = Vector2 1 (- 5), acc = Vector2 0 0, mass = 2\<rparr>)
     = Vector2 (- 1) 5
   \<and> vel (boundary \<lparr>pos = Vector2 (7 / 2) 1, vel = Vector2 1 (- 5), acc = Vector2 0 0, mass = 2\<rparr>)
     = Vector2 (- 1) (- 5)
   \<and> - 3 < (2::real) \<and> (2::real) < 3 \<and> - 3 < (- 1::real) \<and> (- 1::real) < 3
   \<and> vel (boundary \<lparr>pos = Vector2 2 (- 1), vel = Vector2 1 (- 5), acc = Vector2 0 0, mass = 2\<rparr>)
     = Vector2 1 (- 5)"
  using boundary_reflects_velocity_only
      [of _ _ "\<lparr>pos = Vector2 (7 / 2) (- 3), vel = Vector2 1 (- 5), acc = Vector2 0 0, mass = 2\<rparr>"]
    boundary_reflects_velocity_only
      [of _ _ "\<lparr>pos = Vector2 (7 / 2) 1, vel = Vector2 1 (- 5), acc = Vector2 0 0, mass = 2\<rparr>"]
    boundary_reflects_velocity_only
      [of _ _ "\<lparr>pos = Vector2 2 (- 1), vel = Vector2 1 (- 5), acc = Vector2 0 0, mass = 2\<rparr>"]
  by (simp add: Vector2.expand)

section \<open>The two-body example\<close>

text \<open>
  C2. Two bodies of mass 1 at \<open>(-1, 0)\<close> and \<open>(1, 0)\<close>, at rest, \<open>dt = 0.01\<close>, in the 2D
  program. The accumulation pass leaves the acceleration \<open>(0.25, 0)\<close> on the first body
  and \<open>(-0.25, 0)\<close> on the second; after the whole frame the first body has velocity
  \<open>(0.0025, 0)\<close> and position \<open>(-1, 0)\<close>, the second velocity \<open>(-0.0025, 0)\<close> and position
  \<open>(1, 0)\<close>, and both accelerations are zero again.
\<close>

theorem two_body_example:
  "accumulate [newBody (Vector2 (- 1) 0) (Vector2 0 0) 1, newBody (Vector2 1 0) (Vector2 0 0) 1]
     = [\<lparr>pos = Vector2 (- 1) 0, vel = Vector2 0 0, acc = Vector2 (25 / 100) 0, mass = 1\<rparr>,
        \<lparr>pos = Vector2 1 0, vel = Vector2 0 0, acc = Vector2 (- (25 / 100)) 0, mass = 1\<rparr>]
   \<and> animate (1 / 100) [newBody (Vector2 (- 1) 0) (Vector2 0 0) 1, newBody (Vector2 1 0) (Vector2 0 0) 1]
     = [\<lparr>pos = Vector2 (- 1) 0, vel = Vector2 (25 / 10000) 0, acc = Vector2 0 0, mass = 1\<rparr>,
        \<lparr>pos = Vector2 1 0, vel = Vector2 (- (25 / 10000)) 0, acc = Vector2 0 0, mass = 1\<rparr>]"
  unfolding animate_def accumulate_two_bodies
  by (simp add: update_def boundary_def Let_def add2_def multiplyScalar2_def)

section \<open>Accelerations between frames\<close>

text \<open>
  C7. Every accumulation pass starts with all accelerations zero. The constructor sets
  the acceleration to zero and \<^verbatim>\<open>update\<close> ends by resetting it, so: the bodies the 3D
  program creates, and the bodies the 2D program has after its initialisation, have zero
  accelerations after any number \<open>k\<close> of frames (that is, when frame \<open>k + 1\<close> starts its
  pass); and the same holds from any list of bodies whose accelerations are zero.
\<close>

theorem acc_zero_before_accumulation:
  "acc (newBody p v m) = Vector2 0 0 \<and> acc (newBody3 p' v' m') = Vector3 0 0 0
   \<and> map acc (map (update dt) bodies) = replicate (length bodies) (Vector2 0 0)
   \<and> map acc (map (update3 dt) bodies') = replicate (length bodies') (Vector3 0 0 0)
   \<and> (map acc bodies = replicate (length bodies) (Vector2 0 0)
        \<longrightarrow> map acc ((animate dt ^^ k) bodies) = replicate (length bodies) (Vector2 0 0))
   \<and> (map acc bodies' = replicate (length bodies') (Vector3 0 0 0)
        \<longrightarrow> map acc ((animate3 dt ^^ k) bodies') = replicate (length bodies') (Vector3 0 0 0))
   \<and> (init random = Some bodies
        \<longrightarrow> map acc ((animate dt ^^ k) bodies) = replicate n (Vector2 0 0))
   \<and> map acc ((animate3 dt ^^ k) (createBodies3 random)) = replicate n (Vector3 0 0 0)"
proof -
  have a: "map acc bodies = replicate (length bodies) (Vector2 0 0)
        \<longrightarrow> map acc ((animate dt ^^ k) bodies) = replicate (length bodies) (Vector2 0 0)"
    using frames_acc [where bodies = bodies and dt = dt and k = k] by simp
  have b: "map acc bodies' = replicate (length bodies') (Vector3 0 0 0)
        \<longrightarrow> map acc ((animate3 dt ^^ k) bodies') = replicate (length bodies') (Vector3 0 0 0)"
    using frames3_acc [where bodies = bodies' and dt = dt and k = k] by simp
  have c: "init random = Some bodies
        \<longrightarrow> map acc ((animate dt ^^ k) bodies) = replicate n (Vector2 0 0)"
  proof
    assume i: "init random = Some bodies"
    have "map acc bodies = replicate (length bodies) (Vector2 0 0)"
      using init_acc [OF i] init_length [OF i] by simp
    from frames_acc [OF this, where dt = dt and k = k] show "map acc ((animate dt ^^ k) bodies) = replicate n (Vector2 0 0)"
      using init_length [OF i] by simp
  qed
  have d: "map acc ((animate3 dt ^^ k) (createBodies3 random)) = replicate n (Vector3 0 0 0)"
    using frames3_acc [where bodies = "createBodies3 random" and dt = dt and k = k]
    by (simp add: createBodies3_acc createBodies3_length)
  have e: "acc (newBody p v m) = Vector2 0 0 \<and> acc (newBody3 p' v' m') = Vector3 0 0 0
    \<and> map acc (map (update dt) bodies) = replicate (length bodies) (Vector2 0 0)
    \<and> map acc (map (update3 dt) bodies') = replicate (length bodies') (Vector3 0 0 0)"
    by (simp add: newBody_def newBody3_def comp_def update_def update3_def Let_def
        map_replicate_const)
  from a b c d e show ?thesis by blast
qed

theorem acc_zero_before_accumulation_witness:
  "map acc [newBody (Vector2 (- 1) 0) (Vector2 0 1) 2, newBody (Vector2 1 0) (Vector2 0 0) 2]
     = replicate (length [newBody (Vector2 (- 1) 0) (Vector2 0 1) 2,
                          newBody (Vector2 1 0) (Vector2 0 0) 2]) (Vector2 0 0)
   \<and> map acc ((animate (1 / 1000) ^^ 5) [newBody (Vector2 (- 1) 0) (Vector2 0 1) 2,
                                          newBody (Vector2 1 0) (Vector2 0 0) 2])
     = [Vector2 0 0, Vector2 0 0]
   \<and> map acc [newBody3 (Vector3 (- 1) 0 0) (Vector3 0 1 0) 1, newBody3 (Vector3 1 0 0) (Vector3 0 0 0) 1]
     = replicate (length [newBody3 (Vector3 (- 1) 0 0) (Vector3 0 1 0) 1,
                          newBody3 (Vector3 1 0 0) (Vector3 0 0 0) 1]) (Vector3 0 0 0)
   \<and> map acc ((animate3 (1 / 100) ^^ 5) [newBody3 (Vector3 (- 1) 0 0) (Vector3 0 1 0) 1,
                                          newBody3 (Vector3 1 0 0) (Vector3 0 0 0) 1])
     = [Vector3 0 0 0, Vector3 0 0 0]
   \<and> init (\<lambda>k. if even k then 0 else 1 / 2)
     = Some (replicate n \<lparr>pos = Vector2 (- 1) 0, vel = Vector2 (- (1 / 1000)) 0,
                           acc = Vector2 0 0, mass = 2\<rparr>)
   \<and> map acc ((animate (1 / 1000) ^^ 5)
        (replicate n \<lparr>pos = Vector2 (- 1) 0, vel = Vector2 (- (1 / 1000)) 0,
                       acc = Vector2 0 0, mass = 2\<rparr>))
     = replicate n (Vector2 0 0)"
  using acc_zero_before_accumulation [where k = 5 and dt = "1 / 1000" and bodies =
      "[newBody (Vector2 (- 1) 0) (Vector2 0 1) 2, newBody (Vector2 1 0) (Vector2 0 0) 2]"]
    acc_zero_before_accumulation [where k = 5 and dt = "1 / 100" and bodies' =
      "[newBody3 (Vector3 (- 1) 0 0) (Vector3 0 1 0) 1, newBody3 (Vector3 1 0 0) (Vector3 0 0 0) 1]"]
    acc_zero_before_accumulation [where k = 5 and dt = "1 / 1000"
      and random = "\<lambda>k. if even k then 0 else 1 / 2" and bodies =
      "replicate n \<lparr>pos = Vector2 (- 1) 0, vel = Vector2 (- (1 / 1000)) 0,
                     acc = Vector2 0 0, mass = 2\<rparr>"]
  by (simp add: newBody_def newBody3_def init_sample)

section \<open>Determinism\<close>



section \<open>A single body\<close>




section \<open>The state after the initialisation\<close>

text \<open>
  C1. The centring of the 2D program does not bring the mean momentum or the mean
  mass-weighted position to zero. \<^verbatim>\<open>velSum\<close> and \<^verbatim>\<open>posSum\<close> are sums weighted by the
  mass 2 and divided by the number of bodies, not by the total mass, so subtracting them
  from every body turns each mean into its negation: for every sample, the mean of
  \<open>mass * velocity\<close> after the centring is minus the one before, and likewise for
  positions. On the sample in which every body is drawn with angle 0 and radius 1/2
  (position \<open>(0.5, 0)\<close>, velocity \<open>(0.001, 0)\<close>, \<open>n = 100\<close>, mass 2), the initialisation
  ends with every body at \<open>(-1, 0)\<close> with velocity \<open>(-0.001, 0)\<close>: the mean of
  \<open>mass * velocity\<close> is \<open>(-0.002, 0)\<close> and the mean of \<open>mass * position\<close> is \<open>(-2, 0)\<close>;
  only the largest distance from the origin is 1.
\<close>

theorem init_not_centred:
  "velSum (centre (createBodies random)) = multiplyScalar2 (velSum (createBodies random)) (- 1)
   \<and> posSum (centre (createBodies random)) = multiplyScalar2 (posSum (createBodies random)) (- 1)
   \<and> init (\<lambda>k. if even k then 0 else 1 / 2)
       = Some (replicate n \<lparr>pos = Vector2 (- 1) 0, vel = Vector2 (- (1 / 1000)) 0,
                             acc = Vector2 0 0, mass = 2\<rparr>)
   \<and> velSum (replicate n \<lparr>pos = Vector2 (- 1) 0, vel = Vector2 (- (1 / 1000)) 0,
                           acc = Vector2 0 0, mass = 2\<rparr>)
       = Vector2 (- (1 / 500)) 0
   \<and> posSum (replicate n \<lparr>pos = Vector2 (- 1) 0, vel = Vector2 (- (1 / 1000)) 0,
                           acc = Vector2 0 0, mass = 2\<rparr>)
       = Vector2 (- 2) 0
   \<and> maxRadius (replicate n \<lparr>pos = Vector2 (- 1) 0, vel = Vector2 (- (1 / 1000)) 0,
                              acc = Vector2 0 0, mass = 2\<rparr>)
       = Some 1
   \<and> n = 100"
  using velSum_centre [OF createBodies_length createBodies_mass, of random]
    posSum_centre [OF createBodies_length createBodies_mass, of random]
  by (simp add: init_sample velSum_replicate posSum_replicate maxRadius_replicate length2_def)
    (simp add: n_def)

end
